theory Spec2Isabelle
  imports Complex_Main
begin

section \<open>Values and errors of the Python program\<close>

text \<open>
  The program is \<^verbatim>\<open>src/app.py\<close>. Python floats are modelled by \<^typ>\<open>real\<close>: the
  comparisons of the code are the comparisons of the reals, and a result that IEEE
  arithmetic would make infinite or NaN leaves the model as \<open>NonFinite\<close> (it is not an
  exception of the program). Every other constructor of \<open>py_error\<close> is a Python
  exception.
\<close>

datatype py_error =
  ValueError | TypeError | AttributeError | ZeroDivisionError
  | ConnectionError | NonFinite

text \<open>What the database and the sensors deliver: parsed JSON.\<close>

datatype pyval =
  PNone | PBool bool | PNum real | PStr string
  | PList "pyval list" | PDict "(string \<times> pyval) list"

text \<open>Python's truth value of an object, as \<^verbatim>\<open>not lat\<close> and \<^verbatim>\<open>if probes:\<close> use it.\<close>

fun truthy :: "pyval \<Rightarrow> bool" where
  "truthy PNone = False"
| "truthy (PBool b) = b"
| "truthy (PNum r) = (r \<noteq> 0)"
| "truthy (PStr s) = (s \<noteq> [])"
| "truthy (PList xs) = (xs \<noteq> [])"
| "truthy (PDict kvs) = (kvs \<noteq> [])"

text \<open>
  \<^verbatim>\<open>float(v)\<close>. What \<^verbatim>\<open>float\<close> makes of a string is Python's own parser, taken as
  the parameter \<open>fs\<close>.
\<close>

fun py_float :: "(string \<Rightarrow> py_error + real) \<Rightarrow> pyval \<Rightarrow> py_error + real" where
  "py_float fs (PNum r) = Inr r"
| "py_float fs (PBool b) = Inr (if b then 1 else 0)"
| "py_float fs (PStr s) = fs s"
| "py_float fs PNone = Inl TypeError"
| "py_float fs (PList xs) = Inl TypeError"
| "py_float fs (PDict kvs) = Inl TypeError"

text \<open>\<^verbatim>\<open>v.get(k, d)\<close>: only a dict has the method.\<close>

fun py_get :: "pyval \<Rightarrow> string \<Rightarrow> pyval \<Rightarrow> py_error + pyval" where
  "py_get (PDict kvs) k d = Inr (case map_of kvs k of None \<Rightarrow> d | Some v \<Rightarrow> v)"
| "py_get PNone k d = Inl AttributeError"
| "py_get (PBool b) k d = Inl AttributeError"
| "py_get (PNum r) k d = Inl AttributeError"
| "py_get (PStr s) k d = Inl AttributeError"
| "py_get (PList xs) k d = Inl AttributeError"

section \<open>Utility functions\<close>

text \<open>
  \<^verbatim>\<open>dew_point(temp, rh)\<close>, lines 61 to 66. The first quotient divides two Python floats
  and raises ZeroDivisionError when \<^verbatim>\<open>b + temp\<close> is zero; the second divides numpy
  floats, whose quotient by zero is infinite.
\<close>

definition clamp_rh :: "real \<Rightarrow> real" where
  "clamp_rh rh = (if rh \<le> 0 then 0.1 else rh)"

definition dew_point :: "real \<Rightarrow> real \<Rightarrow> py_error + real" where
  "dew_point temp rh =
     (let a = 17.27; b = 237.7; rh' = clamp_rh rh in
      if b + temp = 0 then Inl ZeroDivisionError
      else
        let alpha = ((a * temp) / (b + temp)) + ln (rh' / 100) in
        if a - alpha = 0 then Inl NonFinite
        else Inr ((b * alpha) / (a - alpha)))"

text \<open>The Magnus approximation in the words of the specification, section 4.1.\<close>

definition magnus_alpha :: "real \<Rightarrow> real \<Rightarrow> real" where
  "magnus_alpha T RH = (17.27 * T) / (237.7 + T) + ln (RH / 100)"

definition magnus_dew_point :: "real \<Rightarrow> real \<Rightarrow> real" where
  "magnus_dew_point T RH = (237.7 * magnus_alpha T RH) / (17.27 - magnus_alpha T RH)"

text \<open>
  \<^verbatim>\<open>summarize(values)\<close>, lines 92 and 93: numpy's mean, min and max. \<^verbatim>\<open>np.min\<close> of an
  empty sequence raises ValueError.
\<close>

definition np_mean :: "real list \<Rightarrow> real" where
  "np_mean values = sum_list values / real (length values)"

definition summarize :: "real list \<Rightarrow> py_error + real \<times> real \<times> real" where
  "summarize values =
     (if values = [] then Inl ValueError
      else Inr (np_mean values, Min (set values), Max (set values)))"

section \<open>Soil-moisture helper functions\<close>

text \<open>\<^verbatim>\<open>soil_category(soil)\<close>, lines 99 to 106.\<close>

definition soil_category :: "real \<Rightarrow> string" where
  "soil_category soil =
     (if soil < 30 then ''DRY''
      else if soil < 60 then ''MODERATE''
      else ''WET'')"

text \<open>
  \<^verbatim>\<open>grid_risk(farm_risk, soil)\<close>, lines 109 to 138. The farm risk is a Python string
  or \<^verbatim>\<open>None\<close> (what \<^verbatim>\<open>process_field\<close> returns when it skips); when no branch
  matches the function falls off its end and returns \<^verbatim>\<open>None\<close>.
\<close>

definition grid_risk :: "string option \<Rightarrow> real \<Rightarrow> string option" where
  "grid_risk farm_risk soil =
     (let soil_cat = soil_category soil in
      if farm_risk = Some ''NORMAL'' then Some ''NORMAL''
      else if farm_risk = Some ''WATCH'' then
        (if soil_cat = ''WET'' then Some ''WARNING''
         else if soil_cat = ''MODERATE'' then Some ''WATCH''
         else Some ''NORMAL'')
      else if farm_risk = Some ''WARNING'' then
        (if soil_cat = ''WET'' then Some ''HIGH''
         else if soil_cat = ''MODERATE'' then Some ''WARNING''
         else Some ''WATCH'')
      else if farm_risk = Some ''HIGH'' then
        (if soil_cat = ''DRY'' then Some ''WARNING''
         else Some ''HIGH'')
      else None)"

text \<open>
  The transition table of the specification, section 4.5, in its own words: the
  moisture categories, the four risk levels and the twelve cells.
\<close>

datatype moisture = DRY | MODERATE | WET

definition moisture_category :: "real \<Rightarrow> moisture" where
  "moisture_category m = (if m < 30 then DRY else if 60 \<le> m then WET else MODERATE)"

definition risk_levels :: "string list" where
  "risk_levels = [''NORMAL'', ''WATCH'', ''WARNING'', ''HIGH'']"

fun transition_table :: "string \<Rightarrow> moisture \<Rightarrow> string" where
  "transition_table farm DRY =
     (if farm = ''NORMAL'' then ''NORMAL'' else if farm = ''WATCH'' then ''NORMAL''
      else if farm = ''WARNING'' then ''WATCH'' else ''WARNING'')"
| "transition_table farm MODERATE =
     (if farm = ''NORMAL'' then ''NORMAL'' else if farm = ''WATCH'' then ''WATCH''
      else if farm = ''WARNING'' then ''WARNING'' else ''HIGH'')"
| "transition_table farm WET =
     (if farm = ''NORMAL'' then ''NORMAL'' else if farm = ''WATCH'' then ''WARNING''
      else if farm = ''WARNING'' then ''HIGH'' else ''HIGH'')"

text \<open>The severity order NORMAL < WATCH < WARNING < HIGH and the order DRY < MODERATE < WET.\<close>

definition severity :: "string \<Rightarrow> nat option" where
  "severity r =
     (if r = ''NORMAL'' then Some 0 else if r = ''WATCH'' then Some 1
      else if r = ''WARNING'' then Some 2 else if r = ''HIGH'' then Some 3 else None)"

definition no_more_severe :: "string option \<Rightarrow> string option \<Rightarrow> bool" where
  "no_more_severe p q =
     (case (p, q) of
        (Some r, Some s) \<Rightarrow>
          (case (severity r, severity s) of (Some i, Some j) \<Rightarrow> i \<le> j | _ \<Rightarrow> False)
      | _ \<Rightarrow> False)"

definition wetness :: "string \<Rightarrow> nat" where
  "wetness c = (if c = ''DRY'' then 0 else if c = ''MODERATE'' then 1 else 2)"

section \<open>Classification of the reconstruction error\<close>

text \<open>
  Lines 239 to 243 of \<^verbatim>\<open>process_field\<close>, and the reason of lines 249 to 253. The
  product of line 242 is a product of two doubles, which rounds: it is the parameter
  \<open>mul\<close>, applied to the threshold and to the double that the literal \<^verbatim>\<open>0.7\<close> names.
\<close>

definition classify :: "(real \<Rightarrow> real \<Rightarrow> real) \<Rightarrow> real \<Rightarrow> real \<Rightarrow> string" where
  "classify mul threshold error =
     (if error > threshold then ''HIGH''
      else if error > mul threshold 0.7 then ''WATCH''
      else ''NORMAL'')"

definition reason_for :: "string \<Rightarrow> string" where
  "reason_for risk =
     (if risk = ''HIGH'' then ''High humidity and low solar drying''
      else if risk = ''WATCH'' then ''Elevated risk parameters detected''
      else ''Normal conditions'')"

section \<open>Configuration, collaborators and the database\<close>

text \<open>
  What the program takes from outside its own text: the threshold read at start, the
  parsers of Python (\<^verbatim>\<open>float\<close> and \<^verbatim>\<open>int\<close> of a string, \<^verbatim>\<open>str\<close> of an integer), the
  clock (\<^verbatim>\<open>int(time.time() * 1000)\<close> at the evaluation of a field), the irradiance
  service (the value of one request, for the coordinates and the number of days back,
  or the exception of the \<^verbatim>\<open>try\<close> block) and the scoring of a feature vector
  (\<^verbatim>\<open>scaler.transform\<close>, \<^verbatim>\<open>autoencoder.predict\<close> and the mean squared error of lines
  235 to 237, or the exception they raise). The arithmetic of doubles that decides a
  risk or is written to the database is taken from outside too: the product of two
  doubles (line 242), their quotient for a divisor that is not zero and
  \<^verbatim>\<open>round(x, 2)\<close> (line 260).
\<close>

record world =
  THRESHOLD :: real
  double_product :: "real \<Rightarrow> real \<Rightarrow> real"
  double_quotient :: "real \<Rightarrow> real \<Rightarrow> real"
  round2 :: "real \<Rightarrow> real"
  float_of_str :: "string \<Rightarrow> py_error + real"
  int_of_str :: "string \<Rightarrow> py_error + int"
  str_of_int :: "int \<Rightarrow> string"
  clock_ms :: "string \<Rightarrow> string \<Rightarrow> int"
  solar_api :: "pyval \<Rightarrow> pyval \<Rightarrow> nat \<Rightarrow> py_error + real"
  score :: "real list \<Rightarrow> py_error + real"

text \<open>
  What the reads of a pass return, or the exception of a read that fails: the user
  ids, the live status of a user, the keys of a field's archive
  (\<^verbatim>\<open>users/{user}/history/{field}\<close>) in key order and the entries of its historical
  log (\<^verbatim>\<open>users/{user}/historical_logs/{field}\<close>) in key order. No write of a pass
  reaches a path that the same pass reads afterwards.
\<close>

record database =
  users :: "py_error + string list"
  live_status :: "string \<Rightarrow> py_error + pyval"
  history :: "string \<Rightarrow> string \<Rightarrow> py_error + string list"
  historical_logs :: "string \<Rightarrow> string \<Rightarrow> py_error + pyval list"

record reading =
  temperature :: real
  humidity :: real

record data_entry = reading +
  timestamp :: string

text \<open>The prediction of lines 255 to 263, without its wall-clock field \<^verbatim>\<open>lastUpdated\<close>.\<close>

record prediction_record =
  risk :: string
  anomaly_score :: real
  confidence :: real
  reason :: string

text \<open>
  What a pass does, in order: the line \<^verbatim>\<open>Processing env data for ...\<close> it prints
  before it evaluates a field, the three writes, and the error its outer handler
  prints. A write is taken to reach the database.
\<close>

datatype effect =
  Processing string string
  | Archive string string string data_entry
  | Prediction string string prediction_record
  | ProbePrediction string string string string
  | GlobalLoopError py_error

fun is_archive :: "effect \<Rightarrow> bool" where
  "is_archive (Archive u f k e) = True"
| "is_archive (Processing u f) = False"
| "is_archive (Prediction u f p) = False"
| "is_archive (ProbePrediction u f p r) = False"
| "is_archive (GlobalLoopError e) = False"

fun is_prediction :: "effect \<Rightarrow> bool" where
  "is_prediction (Prediction u f p) = True"
| "is_prediction (Processing u f) = False"
| "is_prediction (Archive u f k e) = False"
| "is_prediction (ProbePrediction u f p r) = False"
| "is_prediction (GlobalLoopError e) = False"

fun is_probe_prediction :: "effect \<Rightarrow> bool" where
  "is_probe_prediction (ProbePrediction u f p r) = True"
| "is_probe_prediction (Processing u f) = False"
| "is_probe_prediction (Archive u f k e) = False"
| "is_probe_prediction (Prediction u f p) = False"
| "is_probe_prediction (GlobalLoopError e) = False"

section \<open>Solar irradiance\<close>

text \<open>
  \<^verbatim>\<open>get_latest_solar(lat, lon)\<close>, lines 68 to 90. The result is the value returned
  and the requests made, each named by its number of days back. The bare \<^verbatim>\<open>except\<close>
  swallows every exception of a request.
\<close>

fun solar_attempts :: "(nat \<Rightarrow> py_error + real) \<Rightarrow> nat list \<Rightarrow> real \<times> nat list" where
  "solar_attempts api [] = (5, [])"
| "solar_attempts api (i # rest) =
     (case api i of
        Inr val \<Rightarrow>
          if val \<noteq> - 999 then (val, [i])
          else (fst (solar_attempts api rest), i # snd (solar_attempts api rest))
      | Inl e \<Rightarrow> (fst (solar_attempts api rest), i # snd (solar_attempts api rest)))"

definition get_latest_solar :: "world \<Rightarrow> pyval \<Rightarrow> pyval \<Rightarrow> real \<times> nat list" where
  "get_latest_solar w lat lon =
     (if \<not> truthy lat \<or> \<not> truthy lon then (0, [])
      else solar_attempts (solar_api w lat lon) [0 ..< 5])"

section \<open>The evaluation of one field\<close>

text \<open>
  The archive step, lines 162 to 185. \<^verbatim>\<open>current_ts\<close> is \<^verbatim>\<open>int(str(n))\<close> for the
  integer \<open>n\<close> of the clock, which is \<open>n\<close>.
\<close>

definition archive_step ::
  "world \<Rightarrow> database \<Rightarrow> string \<Rightarrow> string \<Rightarrow> int \<Rightarrow> data_entry \<Rightarrow> py_error + effect list" where
  "archive_step w db user_id field_id now entry =
     (case history db user_id field_id of
        Inl e \<Rightarrow> Inl e
      | Inr keys \<Rightarrow>
          if keys \<noteq> [] then
            (case int_of_str w (last keys) of
               Inl e \<Rightarrow> Inl e
             | Inr last_ts \<Rightarrow>
                 let diff = now - last_ts in
                 if diff < 1500000 then Inr []
                 else Inr [Archive user_id field_id (str_of_int w now) entry])
          else Inr [Archive user_id field_id (str_of_int w now) entry])"

text \<open>The loop of lines 196 to 203 over the entries of the historical log.\<close>

fun log_records :: "world \<Rightarrow> pyval list \<Rightarrow> py_error + reading list" where
  "log_records w [] = Inr []"
| "log_records w (entry # rest) =
     (case py_get entry ''env'' (PDict []) of
        Inl e \<Rightarrow> Inl e
      | Inr env \<Rightarrow>
     (case py_get env ''temp'' PNone of
        Inl e \<Rightarrow> Inl e
      | Inr temp \<Rightarrow>
     (case py_get env ''hum'' PNone of
        Inl e \<Rightarrow> Inl e
      | Inr hum \<Rightarrow>
          if temp = PNone \<or> hum = PNone then log_records w rest
          else
            (case py_float (float_of_str w) temp of
               Inl e \<Rightarrow> Inl e
             | Inr t \<Rightarrow>
            (case py_float (float_of_str w) hum of
               Inl e \<Rightarrow> Inl e
             | Inr h \<Rightarrow>
            (case log_records w rest of
               Inl e \<Rightarrow> Inl e
             | Inr records \<Rightarrow> Inr (\<lparr>temperature = t, humidity = h\<rparr> # records)))))))"

text \<open>
  Lines 187 to 209: the last 47 entries of the historical log, their readings and the
  live reading after them. \<open>None\<close> is the return of line 193.
\<close>

definition scoring_window ::
  "world \<Rightarrow> database \<Rightarrow> string \<Rightarrow> string \<Rightarrow> reading \<Rightarrow> py_error + reading list option" where
  "scoring_window w db user_id field_id live =
     (case historical_logs db user_id field_id of
        Inl e \<Rightarrow> Inl e
      | Inr bucket \<Rightarrow>
          let logs = drop (length bucket - 47) bucket in
          if logs = [] then Inr None
          else
            (case log_records w logs of
               Inl e \<Rightarrow> Inl e
             | Inr records \<Rightarrow> Inr (Some (records @ [live]))))"

text \<open>Lines 216 to 219: the four series.\<close>

fun dew_points :: "(real \<times> real) list \<Rightarrow> py_error + real list" where
  "dew_points [] = Inr []"
| "dew_points ((t, h) # rest) =
     (case dew_point t h of
        Inl e \<Rightarrow> Inl e
      | Inr d \<Rightarrow>
          (case dew_points rest of
             Inl e \<Rightarrow> Inl e
           | Inr ds \<Rightarrow> Inr (d # ds)))"

definition derived_series :: "reading list \<Rightarrow> py_error + real list list" where
  "derived_series records =
     (let temps = map temperature records;
          hums = map humidity records in
      case dew_points (zip temps hums) of
        Inl e \<Rightarrow> Inl e
      | Inr dews \<Rightarrow>
          let dpdiffs = map (\<lambda>(t, d). t - d) (zip temps dews) in
          Inr [temps, hums, dews, dpdiffs])"

text \<open>Lines 222 to 224: the coordinates of the field, or the fixed ones.\<close>

definition coordinates :: "(string \<times> pyval) list \<Rightarrow> pyval \<times> pyval" where
  "coordinates env_data =
     (case (map_of env_data ''lat'', map_of env_data ''lon'') of
        (Some lat, Some lon) \<Rightarrow> (lat, lon)
      | _ \<Rightarrow> (PNum 20.5937, PNum 78.9629))"

text \<open>Lines 228 to 232: the feature vector.\<close>

fun extend_summaries :: "real list list \<Rightarrow> py_error + real list" where
  "extend_summaries [] = Inr []"
| "extend_summaries (arr # rest) =
     (case summarize arr of
        Inl e \<Rightarrow> Inl e
      | Inr (mean, lo, hi) \<Rightarrow>
          (case extend_summaries rest of
             Inl e \<Rightarrow> Inl e
           | Inr features \<Rightarrow> Inr ([mean, lo, hi] @ features)))"

definition build_features :: "real list list \<Rightarrow> real \<Rightarrow> py_error + real list" where
  "build_features series solar =
     (case extend_summaries series of
        Inl e \<Rightarrow> Inl e
      | Inr features \<Rightarrow> Inr (features @ [solar, solar, solar]))"

text \<open>
  Lines 239 to 265: the risk, the reason, the write and the return. The quotient of
  line 260 divides two Python floats and raises ZeroDivisionError when the
  threshold is zero.
\<close>

definition write_prediction ::
  "world \<Rightarrow> string \<Rightarrow> string \<Rightarrow> real \<Rightarrow> effect list \<times> (py_error + string option)" where
  "write_prediction w user_id field_id error =
     (let risk = classify (double_product w) (THRESHOLD w) error in
      if THRESHOLD w = 0 then ([], Inl ZeroDivisionError)
      else
        ([Prediction user_id field_id
            \<lparr>risk = risk, anomaly_score = error,
             confidence = round2 w (double_quotient w error (THRESHOLD w)),
             reason = reason_for risk\<rparr>],
         Inr (Some risk)))"

text \<open>Lines 187 to 265, what follows the archive step.\<close>

definition predict_stage ::
  "world \<Rightarrow> database \<Rightarrow> string \<Rightarrow> string \<Rightarrow> (string \<times> pyval) list \<Rightarrow> reading
     \<Rightarrow> effect list \<times> (py_error + string option)" where
  "predict_stage w db user_id field_id env_data live =
     (case scoring_window w db user_id field_id live of
        Inl e \<Rightarrow> ([], Inl e)
      | Inr None \<Rightarrow> ([], Inr None)
      | Inr (Some records) \<Rightarrow>
          if length records < 48 then ([], Inr None)
          else
            (case derived_series records of
               Inl e \<Rightarrow> ([], Inl e)
             | Inr series \<Rightarrow>
                 let solar = fst (get_latest_solar w (fst (coordinates env_data))
                                    (snd (coordinates env_data))) in
                 (case build_features series solar of
                    Inl e \<Rightarrow> ([], Inl e)
                  | Inr features \<Rightarrow>
                      (case score w features of
                         Inl e \<Rightarrow> ([], Inl e)
                       | Inr error \<Rightarrow> write_prediction w user_id field_id error))))"

text \<open>\<^verbatim>\<open>"temp" in s\<close> for a string \<open>s\<close>: the substring test.\<close>

fun starts_with :: "string \<Rightarrow> string \<Rightarrow> bool" where
  "starts_with [] s = True"
| "starts_with (p # ps) [] = False"
| "starts_with (p # ps) (c # cs) = (p = c \<and> starts_with ps cs)"

fun py_substring :: "string \<Rightarrow> string \<Rightarrow> bool" where
  "py_substring p [] = (p = [])"
| "py_substring p (c # cs) = (starts_with p (c # cs) \<or> py_substring p cs)"

text \<open>
  \<^verbatim>\<open>process_field(user_id, field_id, env_data)\<close>, lines 145 to 265: what it writes and
  what it returns or raises. The membership tests of line 151 are those of the
  type of \<^verbatim>\<open>env_data\<close>; only a dict can be indexed by the string \<^verbatim>\<open>"temp"\<close>.
\<close>

definition process_dict ::
  "world \<Rightarrow> database \<Rightarrow> string \<Rightarrow> string \<Rightarrow> (string \<times> pyval) list
     \<Rightarrow> effect list \<times> (py_error + string option)" where
  "process_dict w db user_id field_id env_data =
     (case map_of env_data ''temp'' of
        None \<Rightarrow> ([], Inr None)
      | Some temp \<Rightarrow>
     (case map_of env_data ''hum'' of
        None \<Rightarrow> ([], Inr None)
      | Some hum \<Rightarrow>
     (case py_float (float_of_str w) temp of
        Inl e \<Rightarrow> ([], Inl e)
      | Inr t \<Rightarrow>
     (case py_float (float_of_str w) hum of
        Inl e \<Rightarrow> ([], Inl e)
      | Inr h \<Rightarrow>
          let now = clock_ms w user_id field_id;
              data_entry = \<lparr>temperature = t, humidity = h, timestamp = str_of_int w now\<rparr> in
          (case archive_step w db user_id field_id now data_entry of
             Inl e \<Rightarrow> ([], Inl e)
           | Inr archived \<Rightarrow>
               (archived @ fst (predict_stage w db user_id field_id env_data
                                  \<lparr>temperature = t, humidity = h\<rparr>),
                snd (predict_stage w db user_id field_id env_data
                       \<lparr>temperature = t, humidity = h\<rparr>)))))))"

fun process_field ::
  "world \<Rightarrow> database \<Rightarrow> string \<Rightarrow> string \<Rightarrow> pyval
     \<Rightarrow> effect list \<times> (py_error + string option)" where
  "process_field w db user_id field_id (PDict env_data) =
     process_dict w db user_id field_id env_data"
| "process_field w db user_id field_id (PStr s) =
     (if \<not> py_substring ''temp'' s \<or> \<not> py_substring ''hum'' s then ([], Inr None)
      else ([], Inl TypeError))"
| "process_field w db user_id field_id (PList xs) =
     (if PStr ''temp'' \<notin> set xs \<or> PStr ''hum'' \<notin> set xs then ([], Inr None)
      else ([], Inl TypeError))"
| "process_field w db user_id field_id PNone = ([], Inl TypeError)"
| "process_field w db user_id field_id (PBool b) = ([], Inl TypeError)"
| "process_field w db user_id field_id (PNum r) = ([], Inl TypeError)"

section \<open>The fleet pass\<close>

text \<open>
  The loop over the probes of a field, lines 294 to 311. Inside the \<^verbatim>\<open>try\<close>, a
  moisture that \<^verbatim>\<open>float\<close> rejects and a \<^verbatim>\<open>None\<close> handed to the database's \<^verbatim>\<open>set\<close>
  (which the client library refuses with ValueError) end in a handler that prints
  and goes on.
\<close>

fun probe_loop ::
  "world \<Rightarrow> string \<Rightarrow> string \<Rightarrow> string option \<Rightarrow> (string \<times> pyval) list \<Rightarrow> effect list" where
  "probe_loop w user_id field_id farm_risk [] = []"
| "probe_loop w user_id field_id farm_risk ((probe_id, probe_data) # rest) =
     (case probe_data of
        PDict kvs \<Rightarrow>
          (case map_of kvs ''raw_moisture'' of
             None \<Rightarrow> []
           | Some raw_moisture \<Rightarrow>
               if raw_moisture = PNone then []
               else
                 (case py_float (float_of_str w) raw_moisture of
                    Inl e \<Rightarrow> []
                  | Inr moisture_val \<Rightarrow>
                      (case grid_risk farm_risk moisture_val of
                         None \<Rightarrow> []
                       | Some probe_risk_level \<Rightarrow>
                           [ProbePrediction user_id field_id probe_id probe_risk_level])))
      | _ \<Rightarrow> [])
     @ probe_loop w user_id field_id farm_risk rest"

text \<open>
  The body of the loop over the fields of a user, lines 287 to 313: the effects, and
  the exception that leaves the body if one does.
\<close>

definition eval_field ::
  "world \<Rightarrow> database \<Rightarrow> string \<Rightarrow> string \<times> pyval \<Rightarrow> effect list \<times> (py_error + unit)" where
  "eval_field w db user_id item =
     (case snd item of
        PDict field_data \<Rightarrow>
          (case map_of field_data ''env'' of
             None \<Rightarrow> ([], Inr ())
           | Some env \<Rightarrow>
               (case snd (process_field w db user_id (fst item) env) of
                  Inl e \<Rightarrow>
                    (Processing user_id (fst item)
                       # fst (process_field w db user_id (fst item) env), Inl e)
                | Inr farm_risk \<Rightarrow>
                    let probes = (case map_of field_data ''probes'' of
                                    None \<Rightarrow> PDict [] | Some p \<Rightarrow> p) in
                    if truthy probes then
                      (case probes of
                         PDict ps \<Rightarrow>
                           (Processing user_id (fst item)
                              # fst (process_field w db user_id (fst item) env)
                              @ probe_loop w user_id (fst item) farm_risk ps, Inr ())
                       | _ \<Rightarrow>
                           (Processing user_id (fst item)
                              # fst (process_field w db user_id (fst item) env),
                            Inl AttributeError))
                    else
                      (Processing user_id (fst item)
                         # fst (process_field w db user_id (fst item) env), Inr ())))
      | _ \<Rightarrow> ([], Inr ()))"




section \<open>Scenarios\<close>

text \<open>
  Concrete inputs for the instances below. A field named \<open>full\<close> has 47 entries in
  its historical log and one named \<open>short\<close> has 46, each entry with 25 degrees and 50
  percent; the fields \<open>throttled\<close> and \<open>due\<close> have a last archive key of
  1700000000000, the others no archive. The clock reads 1700001499999 for the field
  \<open>throttled\<close> and 1700001500000 for every other one. The parsers are Python's on
  the strings and integers the scenarios meet: \<^verbatim>\<open>n/a\<close> is no number, and the keys
  and clock values are decimal timestamps. The scoring model reconstructs every
  vector exactly. The arithmetic of doubles is given at the values the scenarios
  meet: the product of the threshold 1.0 and 0.7 is the double 0.7, which is
  3152519739159347 / 2^52, the quotient of the error 0.0 by 1.0 is 0.0, and
  \<^verbatim>\<open>round(0.0, 2)\<close> is 0.0.
\<close>

definition scenario_product :: "real \<Rightarrow> real \<Rightarrow> real" where
  "scenario_product x y =
     (if x = 1 \<and> y = 0.7 then 3152519739159347 / 4503599627370496 else 0)"

definition scenario_quotient :: "real \<Rightarrow> real \<Rightarrow> real" where
  "scenario_quotient x y = (if y = 1 then x else 0)"

definition scenario_round2 :: "real \<Rightarrow> real" where
  "scenario_round2 x = 0"

definition scenario_float :: "string \<Rightarrow> py_error + real" where
  "scenario_float s = Inl ValueError"

definition scenario_int :: "string \<Rightarrow> py_error + int" where
  "scenario_int s = (if s = ''1700000000000'' then Inr 1700000000000 else Inl ValueError)"

definition scenario_str :: "int \<Rightarrow> string" where
  "scenario_str n =
     (if n = 1700001500000 then ''1700001500000''
      else if n = 1700001499999 then ''1700001499999'' else ''0'')"

definition scenario_world :: world where
  "scenario_world =
     \<lparr>THRESHOLD = 1,
      double_product = scenario_product,
      double_quotient = scenario_quotient,
      round2 = scenario_round2,
      float_of_str = scenario_float,
      int_of_str = scenario_int,
      str_of_int = scenario_str,
      clock_ms = (\<lambda>u f. if f = ''throttled'' then 1700001499999 else 1700001500000),
      solar_api = (\<lambda>lat lon i. Inr 5),
      score = (\<lambda>features. Inr 0)\<rparr>"

text \<open>The irradiance service down on four days and without data on the third.\<close>

definition silent_world :: world where
  "silent_world =
     scenario_world\<lparr>solar_api :=
       (\<lambda>lat lon i. if i = 2 then Inr (- 999) else Inl ConnectionError)\<rparr>"

definition live_env :: "(string \<times> pyval) list" where
  "live_env = [(''temp'', PNum 25), (''hum'', PNum 50)]"

definition cold_env :: "(string \<times> pyval) list" where
  "cold_env = [(''temp'', PNum (- 237.7)), (''hum'', PNum 50)]"

definition log_entry :: pyval where
  "log_entry = PDict [(''env'', PDict live_env)]"

definition field_bad :: "string \<times> pyval" where
  "field_bad = (''f1'', PDict [(''env'', PDict [(''temp'', PStr ''n/a''), (''hum'', PNum 50)])])"

definition field_ok :: "string \<times> pyval" where
  "field_ok =
     (''f2'', PDict [(''env'', PDict live_env),
                     (''probes'', PDict [(''p1'', PDict [(''raw_moisture'', PNum 70)])])])"

definition scenario_db :: database where
  "scenario_db =
     \<lparr>users = Inr [''u''],
      live_status = (\<lambda>u. Inr (PDict [field_bad, field_ok])),
      history = (\<lambda>u f. if f = ''throttled'' \<or> f = ''due''
                         then Inr [''1700000000000''] else Inr []),
      historical_logs = (\<lambda>u f. if f = ''full'' then Inr (replicate 47 log_entry)
                                else if f = ''short'' then Inr (replicate 46 log_entry)
                                else Inr [])\<rparr>"

text \<open>A sample on the equator, with both coordinates in its data.\<close>

definition equator_env :: "(string \<times> pyval) list" where
  "equator_env =
     [(''temp'', PNum 25), (''hum'', PNum 50), (''lat'', PNum 0), (''lon'', PNum 78.9629)]"

text \<open>
  A window of 48 samples, 24 of 20 degrees and then 24 of 30 degrees, all of 50
  percent.
\<close>

definition mixed_window :: "reading list" where
  "mixed_window =
     replicate 24 \<lparr>temperature = 20, humidity = 50\<rparr>
     @ replicate 24 \<lparr>temperature = 30, humidity = 50\<rparr>"





section \<open>Facts about the utility functions\<close>

lemma magnus_alpha_below:
  assumes "0 < 237.7 + T" and "0 < RH" and "RH \<le> 100"
  shows "magnus_alpha T RH < 17.27"
proof -
  have "ln (RH / 100) \<le> 0" using assms(2,3) by simp
  moreover have "17.27 * T < 17.27 * (237.7 + T)" by simp
  then have "(17.27 * T) / (237.7 + T) < 17.27"
    using assms(1) by (simp add: pos_divide_less_eq)
  ultimately show ?thesis by (simp add: magnus_alpha_def)
qed

text \<open>
  Above -237.7 degrees and up to 100 percent the dew point is a number: neither
  quotient has a zero denominator.
\<close>

lemma dew_point_defined:
  assumes "0 < 237.7 + T" and "rh \<le> 100"
  shows "dew_point T rh = Inr (magnus_dew_point T (clamp_rh rh))"
proof -
  have "magnus_alpha T (clamp_rh rh) < 17.27"
    by (rule magnus_alpha_below) (use assms in \<open>simp_all add: clamp_rh_def\<close>)
  then show ?thesis using assms(1)
    by (simp add: dew_point_def magnus_dew_point_def magnus_alpha_def Let_def)
qed

lemma dew_points_length: "dew_points xs = Inr ds \<Longrightarrow> length ds = length xs"
  by (induction xs arbitrary: ds) (auto split: sum.splits)

lemma dew_points_replicate:
  "dew_point t h = Inr d \<Longrightarrow> dew_points (replicate n (t, h)) = Inr (replicate n d)"
  by (induction n) simp_all

lemma dew_points_append:
  "dew_points xs = Inr ds \<Longrightarrow>
   dew_points (xs @ ys) = (case dew_points ys of Inl e \<Rightarrow> Inl e | Inr ds' \<Rightarrow> Inr (ds @ ds'))"
  by (induction xs arbitrary: ds) (auto split: sum.splits)

lemma summarize_nonempty:
  "values \<noteq> [] \<Longrightarrow>
   summarize values = Inr (np_mean values, Min (set values), Max (set values))"
  by (simp add: summarize_def)

lemma features_exist:
  assumes "records \<noteq> []"
    and "dew_points (zip (map temperature records) (map humidity records)) = Inr dews"
  shows "\<exists>series. derived_series records = Inr series \<and>
           (\<exists>fs. build_features series solar = Inr fs \<and> length fs = 15)"
proof -
  have "length dews = length records" using dew_points_length[OF assms(2)] by simp
  then have "dews \<noteq> []" using assms(1) by auto
  then show ?thesis using assms
    by (simp add: derived_series_def build_features_def summarize_nonempty Let_def)
qed

lemma dew_points_of_samples:
  "(\<forall>r \<in> set records. dew_point (temperature r) (humidity r) = Inr (dp r)) \<Longrightarrow>
   dew_points (zip (map temperature records) (map humidity records)) = Inr (map dp records)"
  by (induction records) simp_all

lemma depressions_of_samples:
  "map (\<lambda>(t, d). t - d) (zip (map temperature records) (map dp records))
     = map (\<lambda>r. temperature r - dp r) records"
  by (induction records) simp_all

text \<open>Once the four series of a window exist, the feature vector does.\<close>

lemma build_features_total:
  assumes "records \<noteq> []" and "derived_series records = Inr series"
  shows "\<exists>fs. build_features series solar = Inr fs \<and> length fs = 15"
proof -
  obtain dews where d: "dew_points (zip (map temperature records) (map humidity records)) = Inr dews"
    using assms(2) by (auto simp: derived_series_def Let_def split: sum.splits)
  have "\<exists>s. derived_series records = Inr s \<and>
          (\<exists>fs. build_features s solar = Inr fs \<and> length fs = 15)"
    using features_exist[OF assms(1) d] .
  then show ?thesis using assms(2) by auto
qed

lemma solar_attempts_asks:
  "days \<noteq> [] \<Longrightarrow> snd (solar_attempts api days) \<noteq> []"
  by (cases days) (auto split: sum.splits)

lemma solar_attempts_all_miss:
  "(\<forall>i \<in> set days. case api i of Inl e \<Rightarrow> True | Inr val \<Rightarrow> val = - 999) \<Longrightarrow>
   solar_attempts api days = (5, days)"
  by (induction days) (auto split: sum.splits)

lemma upt5: "[0 ..< 5] = [0, 1, 2, 3, 4::nat]"
  by (simp add: upt_rec)

lemma grid_risk_None: "grid_risk None m = None"
  by (simp add: grid_risk_def)

section \<open>Facts about the evaluation of a field\<close>

lemma log_records_length: "log_records w entries = Inr rs \<Longrightarrow> length rs \<le> length entries"
  by (induction entries arbitrary: rs) (auto split: sum.splits if_splits)

lemma write_prediction_cases:
  "write_prediction w u f err = ([], Inl ZeroDivisionError) \<or>
   (\<exists>p. write_prediction w u f err = ([Prediction u f p], Inr (Some (risk p))))"
  by (simp add: write_prediction_def Let_def)

text \<open>The stage after the archive writes nothing, or one prediction and returns its risk.\<close>

lemma predict_stage_cases:
  "(fst (predict_stage w db u f env live) = [] \<and>
      snd (predict_stage w db u f env live) \<noteq> Inr (Some r)) \<or>
   (\<exists>p. predict_stage w db u f env live = ([Prediction u f p], Inr (Some (risk p))))"
  using write_prediction_cases[of w u f]
  apply (simp add: predict_stage_def Let_def split: sum.splits option.splits)
  by (metis Inl_Inr_False fst_conv snd_conv)

lemma predict_stage_no_archive:
  "filter is_archive (fst (predict_stage w db u f env live)) = []"
  using predict_stage_cases[of w db u f env live undefined] by auto

lemma predict_stage_no_probe:
  "filter is_probe_prediction (fst (predict_stage w db u f env live)) = []"
  using predict_stage_cases[of w db u f env live undefined] by auto


lemma archive_step_only_archive:
  "archive_step w db u f now entry = Inr a \<Longrightarrow>
     filter is_prediction a = [] \<and> filter is_probe_prediction a = [] \<and> filter is_archive a = a"
  by (auto simp: archive_step_def Let_def split: sum.splits if_splits)


text \<open>A field evaluation returns a risk exactly when it has written its prediction.\<close>

lemma process_field_cases:
  "(filter is_prediction (fst (process_field w db u f env)) = [] \<and>
      snd (process_field w db u f env) \<noteq> Inr (Some r)) \<or>
   (\<exists>p. filter is_prediction (fst (process_field w db u f env)) = [Prediction u f p] \<and>
      snd (process_field w db u f env) = Inr (Some (risk p)))"
proof (cases env)
  case (PDict env_data)
  show ?thesis
    using predict_stage_cases[of w db u f env_data _ r] archive_step_only_archive[of w db u f]
    unfolding PDict
    apply (simp add: process_dict_def Let_def split: option.splits sum.splits)
    by (metis (no_types, lifting) filter.simps fst_conv snd_conv is_prediction.simps(1))
qed auto

lemma process_field_no_probe:
  "filter is_probe_prediction (fst (process_field w db u f env)) = []"
proof (cases env)
  case (PDict env_data)
  show ?thesis
    using predict_stage_no_probe[of w db u f env_data] archive_step_only_archive[of w db u f]
    unfolding PDict
    by (simp add: process_dict_def Let_def split: option.splits sum.splits)
qed auto


section \<open>Facts about the fleet pass\<close>

lemma probe_loop_None: "probe_loop w u f None ps = []"
  by (induction ps) (auto simp: grid_risk_None split: pyval.splits option.splits sum.splits)







section \<open>Facts about the scenarios\<close>

lemma scenario_world_sel:
  "THRESHOLD scenario_world = 1"
  "double_product scenario_world = scenario_product"
  "double_quotient scenario_world = scenario_quotient"
  "round2 scenario_world = scenario_round2"
  "float_of_str scenario_world = scenario_float"
  "int_of_str scenario_world = scenario_int"
  "str_of_int scenario_world = scenario_str"
  "clock_ms scenario_world u f = (if f = ''throttled'' then 1700001499999 else 1700001500000)"
  "solar_api scenario_world lat lon i = Inr 5"
  "score scenario_world features = Inr 0"
  by (simp_all add: scenario_world_def)



lemma scenario_history:
  "history scenario_db u f =
     (if f = ''throttled'' \<or> f = ''due'' then Inr [''1700000000000''] else Inr [])"
  by (simp add: scenario_db_def)

lemma scenario_logs:
  "historical_logs scenario_db u f =
     (if f = ''full'' then Inr (replicate 47 log_entry)
      else if f = ''short'' then Inr (replicate 46 log_entry) else Inr [])"
  by (simp add: scenario_db_def)

lemma live_env_temp: "map_of live_env ''temp'' = Some (PNum 25)"
  by (simp add: live_env_def)

lemma live_env_hum: "map_of live_env ''hum'' = Some (PNum 50)"
  by (simp add: live_env_def)

lemma replicate_snoc_48: "replicate 47 x @ [x] = replicate 48 x"
proof -
  have e: "(48::nat) = Suc 47" by simp
  show ?thesis by (simp only: e replicate_Suc replicate_append_same)
qed

lemma log_records_replicate:
  "log_records w (replicate n log_entry) = Inr (replicate n \<lparr>temperature = 25, humidity = 50\<rparr>)"
  by (induction n) (simp_all add: log_entry_def live_env_def)

lemma window_short:
  "scoring_window scenario_world scenario_db ''u'' ''short'' live
     = Inr (Some (replicate 46 \<lparr>temperature = 25, humidity = 50\<rparr> @ [live]))"
  by (simp add: scoring_window_def scenario_logs log_records_replicate)

lemma window_full:
  "scoring_window scenario_world scenario_db ''u'' ''full'' live
     = Inr (Some (replicate 47 \<lparr>temperature = 25, humidity = 50\<rparr> @ [live]))"
  by (simp add: scoring_window_def scenario_logs log_records_replicate)

lemma scenario_archive:
  "f \<noteq> ''throttled'' \<Longrightarrow> f \<noteq> ''due'' \<Longrightarrow>
   archive_step scenario_world scenario_db ''u'' f (clock_ms scenario_world ''u'' f) entry
     = Inr [Archive ''u'' f ''1700001500000'' entry]"
  by (simp add: archive_step_def scenario_history scenario_world_sel scenario_str_def)

text \<open>
  The end-to-end scenario of the specification: 48 uniform samples and a model
  without error give the risk NORMAL.
\<close>

lemma full_returns:
  "snd (process_field scenario_world scenario_db ''u'' ''full'' (PDict live_env))
     = Inr (Some ''NORMAL'')"
proof -
  let ?r = "\<lparr>temperature = 25, humidity = 50\<rparr>"
  have w: "replicate 47 ?r @ [?r] = replicate 48 ?r"
    by (rule replicate_snoc_48)
  have d: "dew_point 25 50 = Inr (magnus_dew_point 25 (clamp_rh 50))"
    by (rule dew_point_defined) simp_all
  have z: "zip (map temperature (replicate 48 ?r)) (map humidity (replicate 48 ?r))
             = replicate 48 (25, 50)"
    by (simp add: zip_replicate)
  have "\<exists>series. derived_series (replicate 48 ?r) = Inr series \<and>
          (\<exists>fs. build_features series solar = Inr fs \<and> length fs = 15)" for solar
    by (rule features_exist) (simp_all add: z dew_points_replicate[OF d])
  then obtain series where s: "derived_series (replicate 48 ?r) = Inr series"
     and bf: "\<And>solar. \<exists>fs. build_features series solar = Inr fs"
    by (metis sum.inject(2))
  obtain fs where fs: "build_features series
      (fst (get_latest_solar scenario_world (fst (coordinates live_env))
              (snd (coordinates live_env)))) = Inr fs"
    using bf by blast
  have sc: "score scenario_world fs = Inr 0" and th: "THRESHOLD scenario_world = 1"
    by (simp_all add: scenario_world_sel)
  have "snd (predict_stage scenario_world scenario_db ''u'' ''full'' live_env ?r)
          = Inr (Some ''NORMAL'')"
    by (simp add: predict_stage_def window_full w s fs sc write_prediction_def th
          scenario_world_sel scenario_product_def classify_def Let_def)
  then show ?thesis
    using scenario_archive[of "''full''"]
    by (simp add: process_dict_def live_env_temp live_env_hum scenario_world_sel Let_def)
qed


lemma eval_ok:
  "eval_field scenario_world scenario_db ''u'' field_ok
     = ([Processing ''u'' ''f2'',
         Archive ''u'' ''f2'' ''1700001500000''
           \<lparr>temperature = 25, humidity = 50, timestamp = ''1700001500000''\<rparr>], Inr ())"
  by (simp add: eval_field_def field_ok_def live_env_def process_dict_def archive_step_def
        predict_stage_def scoring_window_def scenario_world_def scenario_history
        scenario_logs scenario_str_def grid_risk_def Let_def)





section \<open>The claims\<close>

subsection \<open>C1: a failing field and the rest of the pass\<close>




subsection \<open>C2: the window of 48 samples\<close>

text \<open>
  C2, as the code has it. Take a field evaluation with a live sample, whose archive
  step did not raise and whose historical log was read and gave its readings without
  an error; the window is these readings, at most 47, and the live sample after
  them. With fewer than 48 samples in the window, an empty historical log among
  them, the evaluation returns \<^verbatim>\<open>None\<close> without error and writes no prediction.
  With 48 samples, when the dew points, the scoring and the quotient of the
  confidence succeed, exactly one prediction is written, with the risk of the
  error, and that risk is returned; the feature vector never fails once the dew
  points exist. And a prediction is written only so: with 48 samples and all of
  these steps succeeding.
\<close>

theorem window_gate:
  assumes "map_of env_data ''temp'' = Some tv" and "map_of env_data ''hum'' = Some hv"
    and "py_float (float_of_str w) tv = Inr t" and "py_float (float_of_str w) hv = Inr h"
    and "archive_step w db u f (clock_ms w u f)
           \<lparr>temperature = t, humidity = h, timestamp = str_of_int w (clock_ms w u f)\<rparr>
         = Inr archived"
    and "historical_logs db u f = Inr bucket"
    and "log_records w (drop (length bucket - 47) bucket) = Inr retrieved"
  shows
   "length retrieved \<le> 47
    \<and> (length (retrieved @ [\<lparr>temperature = t, humidity = h\<rparr>]) < 48 \<longrightarrow>
         snd (process_field w db u f (PDict env_data)) = Inr None \<and>
         filter is_prediction (fst (process_field w db u f (PDict env_data))) = [])
    \<and> (length (retrieved @ [\<lparr>temperature = t, humidity = h\<rparr>]) = 48
         \<and> derived_series (retrieved @ [\<lparr>temperature = t, humidity = h\<rparr>]) = Inr series
         \<and> build_features series
              (fst (get_latest_solar w (fst (coordinates env_data)) (snd (coordinates env_data))))
            = Inr features
         \<and> score w features = Inr err \<and> THRESHOLD w \<noteq> 0 \<longrightarrow>
         filter is_prediction (fst (process_field w db u f (PDict env_data)))
           = [Prediction u f
                \<lparr>risk = classify (double_product w) (THRESHOLD w) err,
                 anomaly_score = err,
                 confidence = round2 w (double_quotient w err (THRESHOLD w)),
                 reason = reason_for (classify (double_product w) (THRESHOLD w) err)\<rparr>]
         \<and> snd (process_field w db u f (PDict env_data))
           = Inr (Some (classify (double_product w) (THRESHOLD w) err)))
    \<and> (derived_series (retrieved @ [\<lparr>temperature = t, humidity = h\<rparr>]) = Inr series \<longrightarrow>
         (\<exists>fs. build_features series
                 (fst (get_latest_solar w (fst (coordinates env_data))
                         (snd (coordinates env_data)))) = Inr fs))
    \<and> (filter is_prediction (fst (process_field w db u f (PDict env_data))) \<noteq> [] \<longrightarrow>
         length (retrieved @ [\<lparr>temperature = t, humidity = h\<rparr>]) = 48
         \<and> (\<exists>s fs e. derived_series (retrieved @ [\<lparr>temperature = t, humidity = h\<rparr>]) = Inr s
               \<and> build_features s
                    (fst (get_latest_solar w (fst (coordinates env_data))
                            (snd (coordinates env_data)))) = Inr fs
               \<and> score w fs = Inr e)
         \<and> THRESHOLD w \<noteq> 0)"
  (is "?A \<and> ?B \<and> ?C \<and> ?D \<and> ?E")
proof -
  let ?live = "\<lparr>temperature = t, humidity = h\<rparr>"
  define logs where "logs = drop (length bucket - 47) bucket"
  have lr: "log_records w logs = Inr retrieved"
    using assms(7) by (simp add: logs_def)
  let ?solar = "fst (get_latest_solar w (fst (coordinates env_data)) (snd (coordinates env_data)))"
  let ?ps = "predict_stage w db u f env_data ?live"
  have pf: "process_field w db u f (PDict env_data) = (archived @ fst ?ps, snd ?ps)"
    using assms(1-5) by (simp add: process_dict_def Let_def)
  have ar: "filter is_prediction archived = []"
    using archive_step_only_archive[OF assms(5)] by simp
  have len: "length retrieved \<le> 47"
    using log_records_length[OF lr] by (simp add: logs_def)
  have empty: "retrieved = []" if "logs = []"
    using lr that by simp
  have sw: "scoring_window w db u f ?live
              = (if logs = [] then Inr None else Inr (Some (retrieved @ [?live])))"
    using assms(6) lr by (simp add: scoring_window_def Let_def logs_def[symmetric])
  have short: "?ps = ([], Inr None)" if "length (retrieved @ [?live]) < 48"
    using that sw by (simp add: predict_stage_def)
  have full: "?ps = ([Prediction u f
                \<lparr>risk = classify (double_product w) (THRESHOLD w) err,
                 anomaly_score = err,
                 confidence = round2 w (double_quotient w err (THRESHOLD w)),
                 reason = reason_for (classify (double_product w) (THRESHOLD w) err)\<rparr>],
              Inr (Some (classify (double_product w) (THRESHOLD w) err)))"
    if "length (retrieved @ [?live]) = 48"
      and "derived_series (retrieved @ [?live]) = Inr series"
      and "build_features series ?solar = Inr features"
      and "score w features = Inr err" and "THRESHOLD w \<noteq> 0"
  proof -
    have "logs \<noteq> []" using that(1) empty by auto
    then have "scoring_window w db u f ?live = Inr (Some (retrieved @ [?live]))"
      using sw by simp
    then show ?thesis using that
      by (simp add: predict_stage_def write_prediction_def Let_def)
  qed
  have tot: "\<exists>fs. build_features series ?solar = Inr fs"
    if "derived_series (retrieved @ [?live]) = Inr series"
    using build_features_total[OF _ that, of ?solar] by auto
  have nec: "length (retrieved @ [?live]) = 48
         \<and> (\<exists>s fs e. derived_series (retrieved @ [?live]) = Inr s
               \<and> build_features s ?solar = Inr fs \<and> score w fs = Inr e)
         \<and> THRESHOLD w \<noteq> 0"
    if "fst ?ps \<noteq> []"
  proof -
    have logs: "logs \<noteq> []"
      using that sw by (auto simp: predict_stage_def)
    then have s: "scoring_window w db u f ?live = Inr (Some (retrieved @ [?live]))"
      using sw by simp
    have l: "\<not> length (retrieved @ [?live]) < 48"
      using that s by (auto simp: predict_stage_def)
    then have l48: "length (retrieved @ [?live]) = 48" using len by simp
    show ?thesis
      using that s l l48
      by (auto simp: predict_stage_def write_prediction_def Let_def
            split: sum.splits if_splits)
  qed
  have nec': "filter is_prediction (archived @ fst ?ps) \<noteq> [] \<Longrightarrow> fst ?ps \<noteq> []"
    using ar by auto
  have B: ?B using short pf ar by auto
  have C: ?C using full pf ar by auto
  have D: ?D using tot by blast
  have E: ?E using nec nec' pf by auto
  show ?thesis by (rule conjI[OF len conjI[OF B conjI[OF C conjI[OF D E]]]])
qed

text \<open>
  No historical log, 46 entries, and 47 entries of 25 degrees and 50 percent with a
  model without error: only the last writes, and it writes the risk NORMAL.
\<close>

theorem window_gate_witness:
  "snd (process_field scenario_world scenario_db ''u'' ''fresh'' (PDict live_env)) = Inr None
   \<and> filter is_prediction
       (fst (process_field scenario_world scenario_db ''u'' ''fresh'' (PDict live_env))) = []
   \<and> snd (process_field scenario_world scenario_db ''u'' ''short'' (PDict live_env)) = Inr None
   \<and> filter is_prediction
       (fst (process_field scenario_world scenario_db ''u'' ''short'' (PDict live_env))) = []
   \<and> filter is_prediction
       (fst (process_field scenario_world scenario_db ''u'' ''full'' (PDict live_env)))
       = [Prediction ''u'' ''full''
            \<lparr>risk = ''NORMAL'', anomaly_score = 0, confidence = 0,
             reason = ''Normal conditions''\<rparr>]
   \<and> snd (process_field scenario_world scenario_db ''u'' ''full'' (PDict live_env))
       = Inr (Some ''NORMAL'')"
proof -
  let ?r = "\<lparr>temperature = 25, humidity = 50\<rparr>"
  let ?solar = "fst (get_latest_solar scenario_world (fst (coordinates live_env))
                       (snd (coordinates live_env)))"
  have d: "dew_point 25 50 = Inr (magnus_dew_point 25 (clamp_rh 50))"
    by (rule dew_point_defined) simp_all
  have z: "zip (map temperature (replicate 48 ?r)) (map humidity (replicate 48 ?r))
             = replicate 48 (25, 50)"
    by (simp add: zip_replicate)
  have "\<exists>series. derived_series (replicate 48 ?r) = Inr series \<and>
          (\<exists>fs. build_features series ?solar = Inr fs \<and> length fs = 15)"
    by (rule features_exist) (simp_all add: z dew_points_replicate[OF d])
  then obtain series fs where s: "derived_series (replicate 47 ?r @ [?r]) = Inr series"
     and fs: "build_features series ?solar = Inr fs"
    by (auto simp: replicate_snoc_48)
  have cl: "classify scenario_product 1 0 = ''NORMAL''"
    by (simp add: classify_def scenario_product_def)
  show ?thesis
    using window_gate
            [of live_env "PNum 25" "PNum 50" scenario_world 25 50 scenario_db "''u''" "''fresh''"
                "[Archive ''u'' ''fresh'' ''1700001500000''
                    \<lparr>temperature = 25, humidity = 50, timestamp = ''1700001500000''\<rparr>]"
                "[]" "[]"]
          window_gate
            [of live_env "PNum 25" "PNum 50" scenario_world 25 50 scenario_db "''u''" "''short''"
                "[Archive ''u'' ''short'' ''1700001500000''
                    \<lparr>temperature = 25, humidity = 50, timestamp = ''1700001500000''\<rparr>]"
                "replicate 46 log_entry" "replicate 46 ?r"]
          window_gate
            [of live_env "PNum 25" "PNum 50" scenario_world 25 50 scenario_db "''u''" "''full''"
                "[Archive ''u'' ''full'' ''1700001500000''
                    \<lparr>temperature = 25, humidity = 50, timestamp = ''1700001500000''\<rparr>]"
                "replicate 47 log_entry" "replicate 47 ?r" series fs 0]
          scenario_archive[of "''fresh''"] scenario_archive[of "''short''"]
          scenario_archive[of "''full''"] s fs
    by (simp add: live_env_temp live_env_hum scenario_world_sel scenario_logs scenario_str_def
          log_records_replicate scenario_quotient_def scenario_round2_def cl reason_for_def)
qed

text \<open>
  Against C2 as stated: a window of 48 samples whose live temperature is -237.7
  degrees. The dew point divides by zero, the evaluation raises and no prediction
  is written.
\<close>

theorem full_window_no_prediction_counterexample:
  "scoring_window scenario_world scenario_db ''u'' ''full''
       \<lparr>temperature = - 237.7, humidity = 50\<rparr>
     = Inr (Some (replicate 47 \<lparr>temperature = 25, humidity = 50\<rparr>
                    @ [\<lparr>temperature = - 237.7, humidity = 50\<rparr>]))
   \<and> length (replicate 47 \<lparr>temperature = 25, humidity = 50\<rparr>
                @ [\<lparr>temperature = - 237.7, humidity = 50\<rparr>]) = 48
   \<and> process_field scenario_world scenario_db ''u'' ''full'' (PDict cold_env)
       = ([Archive ''u'' ''full'' ''1700001500000''
             \<lparr>temperature = - 237.7, humidity = 50, timestamp = ''1700001500000''\<rparr>],
          Inl ZeroDivisionError)"
proof -
  let ?r = "\<lparr>temperature = 25, humidity = 50\<rparr>"
  let ?c = "\<lparr>temperature = - 237.7, humidity = 50\<rparr>"
  have d: "dew_point 25 50 = Inr (magnus_dew_point 25 (clamp_rh 50))"
    by (rule dew_point_defined) simp_all
  have c: "dew_point (- 237.7) 50 = Inl ZeroDivisionError"
    by (simp add: dew_point_def)
  have "dew_points (replicate 47 (25, 50) @ [(- 237.7, 50)]) = Inl ZeroDivisionError"
    using dew_points_append[OF dew_points_replicate[OF d, of 47], of "[(- 237.7, 50)]"] c
    by simp
  then have ds: "derived_series (replicate 47 ?r @ [?c]) = Inl ZeroDivisionError"
    by (simp add: derived_series_def zip_replicate)
  have ps: "predict_stage scenario_world scenario_db ''u'' ''full'' cold_env ?c
              = ([], Inl ZeroDivisionError)"
    by (simp add: predict_stage_def window_full ds)
  have e: "map_of cold_env ''temp'' = Some (PNum (- 237.7))"
          "map_of cold_env ''hum'' = Some (PNum 50)"
    by (simp_all add: cold_env_def)
  show ?thesis
    using scenario_archive[of "''full''"] ps
    by (simp add: window_full process_dict_def e scenario_world_sel scenario_str_def Let_def)
qed

subsection \<open>C3: the transition table\<close>

text \<open>
  C3. For each of the four farm risks and every moisture, \<^verbatim>\<open>grid_risk\<close> returns the
  cell of the transition table of section 4.5 for the category of the moisture
  (below 30 dry, from 60 wet, moderate between), which is one of the four risks; and
  \<^verbatim>\<open>grid_risk("WARNING", 15.0)\<close> is WATCH, \<^verbatim>\<open>grid_risk("HIGH", 70.0)\<close> is HIGH,
  \<^verbatim>\<open>grid_risk("NORMAL", 95.0)\<close> is NORMAL.
\<close>

theorem grid_risk_table:
  "(\<forall>farm \<in> set risk_levels.
      grid_risk (Some farm) m = Some (transition_table farm (moisture_category m))
      \<and> transition_table farm (moisture_category m) \<in> set risk_levels)
   \<and> grid_risk (Some ''WARNING'') 15.0 = Some ''WATCH''
   \<and> grid_risk (Some ''HIGH'') 70.0 = Some ''HIGH''
   \<and> grid_risk (Some ''NORMAL'') 95.0 = Some ''NORMAL''"
  by (cases "moisture_category m")
     (auto simp: risk_levels_def grid_risk_def soil_category_def moisture_category_def
           split: if_splits)

theorem grid_risk_table_witness:
  "''WARNING'' \<in> set risk_levels \<and> moisture_category 15 = DRY
   \<and> grid_risk (Some ''WARNING'') 15 = Some ''WATCH''
   \<and> grid_risk (Some ''WATCH'') 59.5 = Some ''WATCH''
   \<and> grid_risk (Some ''HIGH'') 60 = Some ''HIGH''"
  using grid_risk_table[of 15] grid_risk_table[of "59.5"] grid_risk_table[of 60]
  by (simp add: risk_levels_def moisture_category_def)

subsection \<open>C4: the classification of the error\<close>




subsection \<open>C5: the archive and its spacing\<close>

text \<open>
  C5. For a field evaluation with a live sample, whose most recent archive entry has
  the timestamp \<open>T\<close> and whose clock reads \<open>T + d\<close>: if \<open>d\<close> is below 1,500,000 ms no
  archive entry is written and the evaluation is the stage that fetches the window
  and scores; from 1,500,000 ms on, exactly one archive entry is written, keyed by
  the timestamp of the new sample; with no archive entry, the live sample is written
  as the first one.
\<close>

theorem archive_throttle:
  assumes "map_of env_data ''temp'' = Some tv" and "map_of env_data ''hum'' = Some hv"
    and "py_float (float_of_str w) tv = Inr t" and "py_float (float_of_str w) hv = Inr h"
    and "history db u f = Inr keys"
  shows
   "(keys \<noteq> [] \<and> int_of_str w (last keys) = Inr T \<and> clock_ms w u f = T + d \<and> d < 1500000 \<longrightarrow>
       process_field w db u f (PDict env_data)
         = predict_stage w db u f env_data \<lparr>temperature = t, humidity = h\<rparr>
       \<and> filter is_archive (fst (process_field w db u f (PDict env_data))) = [])
    \<and> (keys \<noteq> [] \<and> int_of_str w (last keys) = Inr T \<and> clock_ms w u f = T + d
          \<and> 1500000 \<le> d \<longrightarrow>
       filter is_archive (fst (process_field w db u f (PDict env_data)))
         = [Archive u f (str_of_int w (T + d))
              \<lparr>temperature = t, humidity = h, timestamp = str_of_int w (T + d)\<rparr>])
    \<and> (keys = [] \<longrightarrow>
       filter is_archive (fst (process_field w db u f (PDict env_data)))
         = [Archive u f (str_of_int w (clock_ms w u f))
              \<lparr>temperature = t, humidity = h, timestamp = str_of_int w (clock_ms w u f)\<rparr>])"
  using assms
  by (simp add: process_dict_def archive_step_def Let_def predict_stage_no_archive)

text \<open>The gaps of 1,499,999 ms and of 1,500,000 ms, and a field without archive.\<close>

theorem archive_throttle_witness:
  "process_field scenario_world scenario_db ''u'' ''throttled'' (PDict live_env)
     = predict_stage scenario_world scenario_db ''u'' ''throttled'' live_env
         \<lparr>temperature = 25, humidity = 50\<rparr>
   \<and> filter is_archive
       (fst (process_field scenario_world scenario_db ''u'' ''throttled'' (PDict live_env))) = []
   \<and> filter is_archive
       (fst (process_field scenario_world scenario_db ''u'' ''due'' (PDict live_env)))
       = [Archive ''u'' ''due'' ''1700001500000''
            \<lparr>temperature = 25, humidity = 50, timestamp = ''1700001500000''\<rparr>]
   \<and> filter is_archive
       (fst (process_field scenario_world scenario_db ''u'' ''fresh'' (PDict live_env)))
       = [Archive ''u'' ''fresh'' ''1700001500000''
            \<lparr>temperature = 25, humidity = 50, timestamp = ''1700001500000''\<rparr>]"
  using archive_throttle
          [of live_env "PNum 25" "PNum 50" scenario_world 25 50 scenario_db "''u''"
              "''throttled''" "[''1700000000000'']" 1700000000000 1499999]
        archive_throttle
          [of live_env "PNum 25" "PNum 50" scenario_world 25 50 scenario_db "''u''"
              "''due''" "[''1700000000000'']" 1700000000000 1500000]
        archive_throttle
          [of live_env "PNum 25" "PNum 50" scenario_world 25 50 scenario_db "''u''"
              "''fresh''" "[]"]
  by (simp add: live_env_temp live_env_hum scenario_history scenario_world_sel
        scenario_int_def scenario_str_def predict_stage_no_archive)

subsection \<open>C6: no probe prediction without a farm prediction\<close>

text \<open>
  C6. For every field of a pass: when the evaluation of the field writes no farm
  prediction (it skipped the scoring, or it raised), no probe prediction is written
  for any probe of that field.
\<close>

theorem skipped_field_writes_no_probe:
  "filter is_prediction (fst (eval_field w db u item)) = [] \<Longrightarrow>
   filter is_probe_prediction (fst (eval_field w db u item)) = []"
proof -
  assume h: "filter is_prediction (fst (eval_field w db u item)) = []"
  show ?thesis
  proof (cases "snd item")
    case (PDict fd)
    show ?thesis
    proof (cases "map_of fd ''env''")
      case None
      then show ?thesis using PDict by (simp add: eval_field_def)
    next
      case (Some env)
      show ?thesis
      proof (cases "snd (process_field w db u (fst item) env)")
        case (Inl e)
        then show ?thesis using PDict Some process_field_no_probe[of w db u "fst item" env]
          by (simp add: eval_field_def)
      next
        case (Inr farm)
        have np: "filter is_prediction (fst (process_field w db u (fst item) env)) = []"
          using h PDict Some Inr
          by (auto simp: eval_field_def Let_def split: if_splits pyval.splits)
        have "farm = None"
        proof (cases farm)
          case (Some r)
          then show ?thesis
            using process_field_cases[of w db u "fst item" env r] np Inr by auto
        qed simp
        then show ?thesis
          using PDict Some Inr process_field_no_probe[of w db u "fst item" env]
          by (auto simp: eval_field_def Let_def probe_loop_None split: pyval.splits)
      qed
    qed
  qed (auto simp: eval_field_def)
qed

text \<open>
  The field \<open>f2\<close> has no historical log and a probe of moisture 70: its evaluation
  archives the sample, skips the scoring and writes nothing for the probe, which a
  farm risk of WATCH would have set to WARNING.
\<close>

theorem skipped_field_writes_no_probe_witness:
  "filter is_prediction (fst (eval_field scenario_world scenario_db ''u'' field_ok)) = []
   \<and> filter is_probe_prediction (fst (eval_field scenario_world scenario_db ''u'' field_ok)) = []
   \<and> probe_loop scenario_world ''u'' ''f2'' (Some ''WATCH'')
         [(''p1'', PDict [(''raw_moisture'', PNum 70)])]
       = [ProbePrediction ''u'' ''f2'' ''p1'' ''WARNING'']"
  using skipped_field_writes_no_probe[of scenario_world scenario_db "''u''" field_ok]
  by (simp add: eval_ok grid_risk_def soil_category_def)

subsection \<open>C7: the fallbacks of the solar lookup\<close>

text \<open>
  C7, on the code. \<^verbatim>\<open>get_latest_solar\<close> makes no request exactly when the latitude
  or the longitude it is given is false for Python, and then returns 0.0; the
  number zero is false, so that a latitude of 0 with a longitude of 78.9629, both
  present in the data of the field and handed on by lines 223 and 224, gives 0.0
  without a request. With both coordinates true for Python, and each of the five
  requests, for today and the four days before, failing or returning the sentinel
  -999, the result is 5.0 after the five requests. When the data of the field lack
  a coordinate, lines 222 to 224 take the fixed coordinates, which are looked up.
\<close>

theorem solar_resolution_at_zero:
  "(snd (get_latest_solar w lat lon) = []) = (\<not> (truthy lat \<and> truthy lon))
   \<and> (snd (get_latest_solar w lat lon) = [] \<longrightarrow> fst (get_latest_solar w lat lon) = 0)
   \<and> (truthy lat \<and> truthy lon \<and>
        (\<forall>i < 5. case solar_api w lat lon i of Inl e \<Rightarrow> True | Inr val \<Rightarrow> val = - 999) \<longrightarrow>
        get_latest_solar w lat lon = (5, [0, 1, 2, 3, 4]))
   \<and> coordinates equator_env = (PNum 0, PNum 78.9629)
   \<and> get_latest_solar w (PNum 0) (PNum 78.9629) = (0, [])
   \<and> get_latest_solar w (PNum 78.9629) (PNum 0) = (0, [])
   \<and> coordinates live_env = (PNum 20.5937, PNum 78.9629)
   \<and> snd (get_latest_solar w (PNum 20.5937) (PNum 78.9629)) \<noteq> []"
  (is "?A \<and> ?B \<and> ?C \<and> ?D \<and> ?E \<and> ?F \<and> ?G \<and> ?H")
proof -
  have ask: "snd (solar_attempts (solar_api w a b) [0 ..< 5]) \<noteq> []" for a b
    by (rule solar_attempts_asks) simp
  have a: "(snd (get_latest_solar w lat lon) = []) = (\<not> (truthy lat \<and> truthy lon))"
    using ask[of lat lon] by (auto simp: get_latest_solar_def)
  have z: "snd (get_latest_solar w lat lon) = [] \<Longrightarrow> fst (get_latest_solar w lat lon) = 0"
    using ask[of lat lon] by (auto simp: get_latest_solar_def split: if_splits)
  have b: "get_latest_solar w lat lon = (5, [0, 1, 2, 3, 4])"
    if t: "truthy lat" "truthy lon"
      and f: "\<forall>i < 5. case solar_api w lat lon i of Inl e \<Rightarrow> True | Inr val \<Rightarrow> val = - 999"
  proof -
    have "\<forall>i \<in> set [0 ..< 5].
            case solar_api w lat lon i of Inl e \<Rightarrow> True | Inr val \<Rightarrow> val = - 999"
      using f by simp
    then have "solar_attempts (solar_api w lat lon) [0 ..< 5] = (5, [0 ..< 5])"
      by (rule solar_attempts_all_miss)
    then show ?thesis using t
      by (simp add: get_latest_solar_def upt5)
  qed
  have c: "coordinates equator_env = (PNum 0, PNum 78.9629)"
          "coordinates live_env = (PNum 20.5937, PNum 78.9629)"
    by (simp_all add: coordinates_def equator_env_def live_env_def)
  have d: "get_latest_solar w (PNum 0) (PNum 78.9629) = (0, [])"
          "get_latest_solar w (PNum 78.9629) (PNum 0) = (0, [])"
    by (simp_all add: get_latest_solar_def)
  have e: "snd (get_latest_solar w (PNum 20.5937) (PNum 78.9629)) \<noteq> []"
    using ask[of "PNum 20.5937" "PNum 78.9629"] by (simp add: get_latest_solar_def)
  have B: ?B using z by blast
  have C: ?C using b by blast
  show ?thesis
    by (rule conjI[OF a conjI[OF B conjI[OF C conjI[OF c(1) conjI[OF d(1) conjI[OF d(2)
          conjI[OF c(2) e]]]]]]])
qed

text \<open>
  With the service down or without data on every day: the field on the equator
  gets 0.0 and no request, the field without coordinates five requests and 5.0.
\<close>

theorem solar_resolution_at_zero_witness:
  "get_latest_solar silent_world (fst (coordinates equator_env)) (snd (coordinates equator_env))
     = (0, [])
   \<and> get_latest_solar silent_world (fst (coordinates live_env)) (snd (coordinates live_env))
     = (5, [0, 1, 2, 3, 4])"
  using solar_resolution_at_zero[of silent_world "PNum 20.5937" "PNum 78.9629"]
  by (simp add: silent_world_def scenario_world_def)

subsection \<open>C8: the dew point\<close>

text \<open>
  C8, as the code has it. For every temperature and humidity, a humidity of zero or
  below is replaced by 0.1 before the computation, so that the dew point is that of
  the humidity 0.1 and the argument of the logarithm is positive. At the temperature
  -237.7, where \<open>b + T\<close> is zero, the first quotient raises ZeroDivisionError
  whatever the humidity. At every other temperature no exception is raised, and for
  a humidity above zero the dew point is the Magnus approximation with a = 17.27
  and b = 237.7, which is not finite where \<open>alpha\<close> is \<open>a\<close>.
\<close>

theorem dew_point_magnus:
  "(rh \<le> 0 \<longrightarrow> dew_point T rh = dew_point T 0.1)
   \<and> 0 < clamp_rh rh / 100
   \<and> (237.7 + T = 0 \<longrightarrow> dew_point T rh = Inl ZeroDivisionError)
   \<and> (237.7 + T \<noteq> 0 \<longrightarrow>
        dew_point T rh =
          (if 17.27 - magnus_alpha T (clamp_rh rh) = 0 then Inl NonFinite
           else Inr (magnus_dew_point T (clamp_rh rh))))
   \<and> (237.7 + T \<noteq> 0 \<and> 0 < rh \<longrightarrow>
        dew_point T rh =
          (if 17.27 - magnus_alpha T rh = 0 then Inl NonFinite
           else Inr (magnus_dew_point T rh)))"
  by (auto simp: dew_point_def clamp_rh_def magnus_alpha_def magnus_dew_point_def Let_def)

theorem dew_point_magnus_witness:
  "dew_point 25 (- 5) = dew_point 25 0.1 \<and> dew_point 25 0 = dew_point 25 0.1
   \<and> dew_point 25 (- 5) = Inr (magnus_dew_point 25 0.1)
   \<and> dew_point 25 50 = Inr (magnus_dew_point 25 50)
   \<and> dew_point (- 237.7) 50 = Inl ZeroDivisionError"
  using dew_point_magnus[of "- 5" 25] dew_point_magnus[of 0 25] dew_point_magnus[of 50 25]
        dew_point_magnus[of 50 "- 237.7"] dew_point_magnus[of "0.1" 25]
        magnus_alpha_below[of 25 50] magnus_alpha_below[of 25 "0.1"]
  by (simp add: clamp_rh_def)

text \<open>
  Against C8 as stated: at -237.7 degrees an error is raised, for a humidity below
  zero as for one above.
\<close>

theorem dew_point_pole_counterexample:
  "dew_point (- 237.7) (- 5) = Inl ZeroDivisionError
   \<and> dew_point (- 237.7) 50 = Inl ZeroDivisionError"
  by (simp add: dew_point_def)

subsection \<open>C9: the feature vector\<close>

text \<open>
  C9. For every window of 48 samples, with \<open>dp\<close> the dew point that \<^verbatim>\<open>dew_point\<close>
  computes for each sample: the four series are the temperatures, the humidities,
  the dew points and the depressions (temperature less dew point) of the samples in
  their order, and the feature vector has 15 entries: the mean (the sum divided by
  48), the minimum and the maximum of the temperatures, then of the humidities, then
  of the dew points, then of the depressions, and the solar scalar three times. The
  summary of a series that is not empty is its sum divided by its length, its
  minimum and its maximum; for the series 1, 2, 3 the mean 2, the minimum 1 and the
  maximum 3.
\<close>

theorem feature_vector_layout:
  assumes "length records = 48"
    and "\<forall>r \<in> set records. dew_point (temperature r) (humidity r) = Inr (dp r)"
  shows "derived_series records
           = Inr [map temperature records, map humidity records, map dp records,
                  map (\<lambda>r. temperature r - dp r) records]
         \<and> build_features [map temperature records, map humidity records, map dp records,
                            map (\<lambda>r. temperature r - dp r) records] solar
           = Inr [sum_list (map temperature records) / 48,
                  Min (temperature ` set records), Max (temperature ` set records),
                  sum_list (map humidity records) / 48,
                  Min (humidity ` set records), Max (humidity ` set records),
                  sum_list (map dp records) / 48,
                  Min (dp ` set records), Max (dp ` set records),
                  sum_list (map (\<lambda>r. temperature r - dp r) records) / 48,
                  Min ((\<lambda>r. temperature r - dp r) ` set records),
                  Max ((\<lambda>r. temperature r - dp r) ` set records),
                  solar, solar, solar]
         \<and> length [sum_list (map temperature records) / 48,
                  Min (temperature ` set records), Max (temperature ` set records),
                  sum_list (map humidity records) / 48,
                  Min (humidity ` set records), Max (humidity ` set records),
                  sum_list (map dp records) / 48,
                  Min (dp ` set records), Max (dp ` set records),
                  sum_list (map (\<lambda>r. temperature r - dp r) records) / 48,
                  Min ((\<lambda>r. temperature r - dp r) ` set records),
                  Max ((\<lambda>r. temperature r - dp r) ` set records),
                  solar, solar, solar] = 15
         \<and> (values \<noteq> [] \<longrightarrow>
               summarize values
                 = Inr (sum_list values / real (length values), Min (set values),
                        Max (set values)))
         \<and> summarize [1, 2, 3] = Inr (2, 1, 3)"
  (is "?A \<and> ?B \<and> ?C \<and> ?D \<and> ?E")
proof -
  have n: "records \<noteq> []" using assms(1) by auto
  have dews: "dew_points (zip (map temperature records) (map humidity records))
                = Inr (map dp records)"
    using assms(2) by (rule dew_points_of_samples)
  have ds: "derived_series records
           = Inr [map temperature records, map humidity records, map dp records,
                  map (\<lambda>r. temperature r - dp r) records]"
    using dews by (simp add: derived_series_def depressions_of_samples)
  have bf: "build_features [map temperature records, map humidity records, map dp records,
                            map (\<lambda>r. temperature r - dp r) records] solar
           = Inr [sum_list (map temperature records) / 48,
                  Min (temperature ` set records), Max (temperature ` set records),
                  sum_list (map humidity records) / 48,
                  Min (humidity ` set records), Max (humidity ` set records),
                  sum_list (map dp records) / 48,
                  Min (dp ` set records), Max (dp ` set records),
                  sum_list (map (\<lambda>r. temperature r - dp r) records) / 48,
                  Min ((\<lambda>r. temperature r - dp r) ` set records),
                  Max ((\<lambda>r. temperature r - dp r) ` set records),
                  solar, solar, solar]"
    using n assms(1) by (simp add: build_features_def summarize_def np_mean_def)
  have sm: "values \<noteq> [] \<Longrightarrow>
               summarize values
                 = Inr (sum_list values / real (length values), Min (set values),
                        Max (set values))"
    by (simp add: summarize_def np_mean_def)
  have ex: "summarize [1, 2, 3] = Inr (2, 1, 3)"
    by (simp add: summarize_def np_mean_def)
  have C: ?C by simp
  have D: ?D using sm by blast
  show ?thesis by (rule conjI[OF ds conjI[OF bf conjI[OF C conjI[OF D ex]]]])
qed

text \<open>
  The window of 24 samples of 20 degrees and 24 of 30 degrees, with the solar scalar
  5: the mean of the temperatures is 25, their minimum 20 and their maximum 30.
\<close>

theorem feature_vector_layout_witness:
  "length mixed_window = 48
   \<and> (\<exists>fs. build_features
              [map temperature mixed_window, map humidity mixed_window,
               map (\<lambda>r. magnus_dew_point (temperature r) 50) mixed_window,
               map (\<lambda>r. temperature r - magnus_dew_point (temperature r) 50) mixed_window] 5
            = Inr fs
          \<and> length fs = 15 \<and> take 6 fs = [25, 20, 30, 50, 50, 50] \<and> drop 12 fs = [5, 5, 5])
   \<and> derived_series mixed_window
       = Inr [map temperature mixed_window, map humidity mixed_window,
              map (\<lambda>r. magnus_dew_point (temperature r) 50) mixed_window,
              map (\<lambda>r. temperature r - magnus_dew_point (temperature r) 50) mixed_window]"
proof -
  have l: "length mixed_window = 48" by (simp add: mixed_window_def)
  have d20: "dew_point 20 50 = Inr (magnus_dew_point 20 50)"
    using dew_point_defined[of 20 50] by (simp add: clamp_rh_def)
  have d30: "dew_point 30 50 = Inr (magnus_dew_point 30 50)"
    using dew_point_defined[of 30 50] by (simp add: clamp_rh_def)
  have dp: "\<forall>r \<in> set mixed_window.
              dew_point (temperature r) (humidity r)
                = Inr (magnus_dew_point (temperature r) 50)"
    using d20 d30 by (auto simp: mixed_window_def)
  show ?thesis
    using feature_vector_layout[OF l dp, of 5]
    by (simp add: mixed_window_def sum_list_replicate)
qed

subsection \<open>C10: monotonicity of the grid risk\<close>

text \<open>
  C10. For every moisture, the probe risk does not decrease when the farm risk rises
  in the order NORMAL, WATCH, WARNING, HIGH; and for every farm risk of the four, it
  does not decrease when the soil category rises in the order DRY, MODERATE, WET.
\<close>

theorem grid_risk_monotone:
  "(r1 \<in> set risk_levels \<and> r2 \<in> set risk_levels \<and> no_more_severe (Some r1) (Some r2) \<longrightarrow>
      no_more_severe (grid_risk (Some r1) m) (grid_risk (Some r2) m))
   \<and> (r \<in> set risk_levels \<and> wetness (soil_category m1) \<le> wetness (soil_category m2) \<longrightarrow>
      no_more_severe (grid_risk (Some r) m1) (grid_risk (Some r) m2))"
  by (auto simp: risk_levels_def grid_risk_def soil_category_def no_more_severe_def
        severity_def wetness_def split: if_splits)

theorem grid_risk_monotone_witness:
  "no_more_severe (Some ''WATCH'') (Some ''HIGH'')
   \<and> no_more_severe (grid_risk (Some ''WATCH'') 70) (grid_risk (Some ''HIGH'') 70)
   \<and> grid_risk (Some ''WATCH'') 70 = Some ''WARNING''
   \<and> wetness (soil_category 15) \<le> wetness (soil_category 45)
   \<and> no_more_severe (grid_risk (Some ''WARNING'') 15) (grid_risk (Some ''WARNING'') 45)
   \<and> \<not> no_more_severe (Some ''HIGH'') (Some ''WATCH'')"
  using grid_risk_monotone[of "''WATCH''" "''HIGH''" 70 "''WARNING''" 15 45]
  by (simp add: risk_levels_def no_more_severe_def severity_def wetness_def soil_category_def
        grid_risk_def)

end
